theory Spec2Isabelle
  imports Main "HOL-Library.Sublist"
begin

section \<open>The parts of Go's time package that the scheduling code uses\<close>

text \<open>
  An instant is a number of nanoseconds since the Unix epoch (an unbounded integer: the
  int64 range of Go is not reached by any calendar date near the present). A duration is
  a number of nanoseconds.
\<close>

type_synonym Duration = int

definition time_Second :: Duration where
  "time_Second = 1000000000"

definition time_Minute :: Duration where
  "time_Minute = 60 * time_Second"

definition time_Hour :: Duration where
  "time_Hour = 60 * time_Minute"

text \<open>
  A location is Go's table of zone transitions: the offset (seconds east of UTC) in force
  before the first transition, and the transitions (Unix second, new offset) in ascending
  order. The table itself is data of the tz database and is a parameter of the model.
\<close>

record Location =
  firstOffset :: int
  tx :: "(int \<times> int) list"

definition UTC :: Location where
  "UTC = \<lparr>firstOffset = 0, tx = []\<rparr>"

text \<open>
  \<open>lookup\<close> returns the offset in force at a Unix second together with the bounds
  \<open>[start, end)\<close> of the period in which it is in force. The period before the first
  transition has no start and the period after the last one has no end (\<open>None\<close>; Go
  writes the least and the greatest int64 for them).
\<close>

fun lookup_from ::
  "int \<Rightarrow> int option \<Rightarrow> (int \<times> int) list \<Rightarrow> int \<Rightarrow> int \<times> int option \<times> int option" where
  "lookup_from off start [] sec = (off, start, None)"
| "lookup_from off start ((w, off') # rest) sec =
     (if sec < w then (off, start, Some w) else lookup_from off' (Some w) rest sec)"

definition lookup :: "Location \<Rightarrow> int \<Rightarrow> int \<times> int option \<times> int option" where
  "lookup l sec = lookup_from (firstOffset l) None (tx l) sec"

text \<open>The tests \<open>utc < start\<close> and \<open>utc >= end\<close> on such bounds.\<close>

definition before_start :: "int option \<Rightarrow> int \<Rightarrow> bool" where
  "before_start start t = (case start of None \<Rightarrow> False | Some s \<Rightarrow> t < s)"

definition reached_end :: "int option \<Rightarrow> int \<Rightarrow> bool" where
  "reached_end end t = (case end of None \<Rightarrow> False | Some e \<Rightarrow> t \<ge> e)"

record time =
  unixNano :: int
  tloc :: Location

definition unixSec :: "time \<Rightarrow> int" where
  "unixSec t = unixNano t div 1000000000"

text \<open>Seconds of the local wall clock since 1970-01-01 00:00 local, in the time's own location.\<close>

definition abs_sec :: "time \<Rightarrow> int" where
  "abs_sec t = unixSec t + fst (lookup (tloc t) (unixSec t))"

definition In :: "time \<Rightarrow> Location \<Rightarrow> time" where
  "In t l = t\<lparr>tloc := l\<rparr>"

definition Add :: "time \<Rightarrow> Duration \<Rightarrow> time" where
  "Add t d = t\<lparr>unixNano := unixNano t + d\<rparr>"

definition Before :: "time \<Rightarrow> time \<Rightarrow> bool" where
  "Before t u = (unixNano t < unixNano u)"

definition After :: "time \<Rightarrow> time \<Rightarrow> bool" where
  "After t u = (unixNano t > unixNano u)"

definition Equal :: "time \<Rightarrow> time \<Rightarrow> bool" where
  "Equal t u = (unixNano t = unixNano u)"

text \<open>
  \<open>Truncate\<close> rounds down to a multiple of the duration since Go's zero time, which lies
  a whole number of minutes before the Unix epoch.
\<close>

definition Truncate :: "time \<Rightarrow> Duration \<Rightarrow> time" where
  "Truncate t d = (if d \<le> 0 then t else t\<lparr>unixNano := unixNano t - unixNano t mod d\<rparr>)"

text \<open>
  A calendar date (year, month, day) is represented by the number of its day, counted from
  1970-01-01. Go's \<open>time.Date\<close> normalises a day beyond the end of the month, so adding
  days to the day field is addition on day numbers.
\<close>

definition civil_day :: "time \<Rightarrow> int" where
  "civil_day t = abs_sec t div 86400"

definition Hour :: "time \<Rightarrow> int" where
  "Hour t = (abs_sec t mod 86400) div 3600"

definition Minute :: "time \<Rightarrow> int" where
  "Minute t = (abs_sec t mod 3600) div 60"

definition Second :: "time \<Rightarrow> int" where
  "Second t = abs_sec t mod 60"

definition Nanosecond :: "time \<Rightarrow> int" where
  "Nanosecond t = unixNano t mod 1000000000"

datatype Weekday = Sunday | Monday | Tuesday | Wednesday | Thursday | Friday | Saturday

text \<open>1970-01-01 was a Thursday.\<close>

definition weekday_of_day :: "int \<Rightarrow> Weekday" where
  "weekday_of_day n =
     [Thursday, Friday, Saturday, Sunday, Monday, Tuesday, Wednesday] ! nat (n mod 7)"

definition Weekday :: "time \<Rightarrow> Weekday" where
  "Weekday t = weekday_of_day (civil_day t)"

text \<open>
  \<open>time.Date\<close>: the wall clock reading is first taken as if it were UTC, the offset found
  there is subtracted, and when the result falls outside the period of that offset the
  offset in force at the result is used instead.
\<close>

definition time_Date :: "int \<Rightarrow> int \<Rightarrow> int \<Rightarrow> int \<Rightarrow> int \<Rightarrow> Location \<Rightarrow> time" where
  "time_Date day hour minute sec nsec l =
     (let unix = day * 86400 + hour * 3600 + minute * 60 + sec;
          (offset, start, end) = lookup l unix;
          unix' = (if offset \<noteq> 0
                   then (let utc = unix - offset;
                             offset' = (if before_start start utc \<or> reached_end end utc
                                        then fst (lookup l utc) else offset)
                         in unix - offset')
                   else unix)
      in \<lparr>unixNano = unix' * 1000000000 + nsec, tloc = l\<rparr>)"

definition AddDate_days :: "time \<Rightarrow> int \<Rightarrow> time" where
  "AddDate_days t days =
     time_Date (civil_day t + days) (Hour t) (Minute t) (Second t) (Nanosecond t) (tloc t)"

subsection \<open>Formatting\<close>

fun digits :: "nat \<Rightarrow> string" where
  "digits n = (if n < 10 then [''0123456789'' ! n]
               else digits (n div 10) @ [''0123456789'' ! (n mod 10)])"

declare digits.simps [simp del]

definition itoa :: "int \<Rightarrow> string" where
  "itoa i = (if i < 0 then CHR ''-'' # digits (nat (- i)) else digits (nat i))"

definition pad_left :: "nat \<Rightarrow> string \<Rightarrow> string" where
  "pad_left w s = replicate (w - length s) CHR ''0'' @ s"

text \<open>Year, month (1..12) and day of the month of a day number (proleptic Gregorian calendar).\<close>

definition civil_from_days :: "int \<Rightarrow> int \<times> int \<times> int" where
  "civil_from_days n =
     (let z = n + 719468;
          era = z div 146097;
          doe = z - era * 146097;
          yoe = (doe - doe div 1460 + doe div 36524 - doe div 146096) div 365;
          doy = doe - (365 * yoe + yoe div 4 - yoe div 100);
          mp = (5 * doy + 2) div 153;
          d = doy - (153 * mp + 2) div 5 + 1;
          m = (if mp < 10 then mp + 3 else mp - 9);
          y = yoe + era * 400 + (if m \<le> 2 then 1 else 0)
      in (y, m, d))"

fun weekday_name :: "Weekday \<Rightarrow> string" where
  "weekday_name Sunday = ''Sunday''"
| "weekday_name Monday = ''Monday''"
| "weekday_name Tuesday = ''Tuesday''"
| "weekday_name Wednesday = ''Wednesday''"
| "weekday_name Thursday = ''Thursday''"
| "weekday_name Friday = ''Friday''"
| "weekday_name Saturday = ''Saturday''"

definition month_name :: "int \<Rightarrow> string" where
  "month_name m =
     [''January'', ''February'', ''March'', ''April'', ''May'', ''June'', ''July'',
      ''August'', ''September'', ''October'', ''November'', ''December''] ! nat (m - 1)"

text \<open>The layout \<open>Monday, January 2, 2006\<close>.\<close>

definition Format_date :: "time \<Rightarrow> string" where
  "Format_date t =
     (case civil_from_days (civil_day t) of (y, m, d) \<Rightarrow>
        weekday_name (Weekday t) @ '', '' @ month_name m @ '' '' @ itoa d @ '', '' @
        (if y < 0 then CHR ''-'' # pad_left 4 (digits (nat (- y)))
         else pad_left 4 (digits (nat y))))"

text \<open>The layout \<open>3:04 PM\<close>.\<close>

definition Format_clock :: "time \<Rightarrow> string" where
  "Format_clock t =
     (let h = Hour t; h12 = (if h mod 12 = 0 then 12 else h mod 12)
      in itoa h12 @ '':'' @ pad_left 2 (itoa (Minute t)) @ '' '' @
         (if h \<ge> 12 then ''PM'' else ''AM''))"

text \<open>
  \<open>time.LoadLocation\<close> reads the tz database, here a map from zone names to tables; a
  missing name is an error.
\<close>

type_synonym tzdata = "string \<rightharpoonup> Location"

definition LoadLocation :: "tzdata \<Rightarrow> string \<Rightarrow> string + Location" where
  "LoadLocation db name =
     (case db name of None \<Rightarrow> Inl (''unknown time zone '' @ name) | Some l \<Rightarrow> Inr l)"

section \<open>Data model (package models)\<close>

record TimeRange =
  Start :: time
  End :: time

text \<open>A TimeSlot is an interval with its two display strings.\<close>

record TimeSlot = TimeRange +
  Date :: string
  Time :: string

section \<open>Slot generation (package logic)\<close>

definition WorkStartHour :: int where
  "WorkStartHour = 9"

definition WorkEndHour :: int where
  "WorkEndHour = 17"

definition SlotDuration :: Duration where
  "SlotDuration = 30 * time_Minute"

definition MaxDays :: nat where
  "MaxDays = 7"

fun isBusy :: "time \<Rightarrow> time \<Rightarrow> 'a TimeRange_scheme list \<Rightarrow> bool" where
  "isBusy start end [] = False"
| "isBusy start end (b # busy) =
     (let l = tloc start;
          busyStart = In (Start b) l;
          busyEnd = In (End b) l
      in if Before start busyEnd \<and> After end busyStart then True
         else isBusy start end busy)"

definition formatSlot :: "time \<Rightarrow> time \<Rightarrow> TimeSlot" where
  "formatSlot start end =
     \<lparr>Start = start, End = end, Date = Format_date start, Time = Format_clock start\<rparr>"

text \<open>
  The inner loop: \<open>cur\<close> walks in steps of \<open>SlotDuration\<close> while the slot still ends at or
  before \<open>workEnd\<close>; the state is the list of free slots and the candidate counter.
\<close>

function slot_loop ::
  "TimeRange list \<Rightarrow> time \<Rightarrow> time \<Rightarrow> TimeSlot list \<times> int \<Rightarrow> TimeSlot list \<times> int" where
  "slot_loop busySlots workEnd cur (availableSlots, totalSlots) =
     (if Before (Add cur SlotDuration) workEnd \<or> Equal (Add cur SlotDuration) workEnd
      then (let slotEnd = Add cur SlotDuration;
                availableSlots' = (if \<not> isBusy cur slotEnd busySlots
                                   then availableSlots @ [formatSlot cur slotEnd]
                                   else availableSlots)
            in slot_loop busySlots workEnd slotEnd (availableSlots', totalSlots + 1))
      else (availableSlots, totalSlots))"
  by pat_completeness auto
termination
  by (relation "measure (\<lambda>(b, e, c, s). nat (unixNano e - unixNano c + 1))")
     (auto simp: Before_def Equal_def Add_def SlotDuration_def time_Minute_def time_Second_def)

declare slot_loop.simps [simp del]

record gen_state =
  availableSlots :: "TimeSlot list"
  daysChecked :: int
  totalSlots :: int

text \<open>One pass of the loop over the days; \<open>None\<close> for the adjusted start is the \<open>continue\<close>.\<close>

definition adjust_start :: "time \<Rightarrow> time \<Rightarrow> time \<Rightarrow> time option" where
  "adjust_start minStartTime workEnd workStart =
     (if Before workStart minStartTime
      then (let workStart1 = minStartTime
            in if After workStart1 workEnd then None
               else (let remainder = Minute workStart1 mod 30;
                         add = (if remainder \<noteq> 0 then 30 - remainder else 0);
                         workStart2 = Add workStart1 (add * time_Minute)
                     in Some (Truncate workStart2 time_Minute)))
      else Some workStart)"

definition day_body ::
  "Location \<Rightarrow> TimeRange list \<Rightarrow> time \<Rightarrow> time \<Rightarrow> nat \<Rightarrow> gen_state \<Rightarrow> gen_state" where
  "day_body l busySlots minStartTime startSearch d st =
     (let dayDate = AddDate_days startSearch (int d)
      in if Weekday dayDate = Saturday \<or> Weekday dayDate = Sunday then st
         else
           (let st1 = st\<lparr>daysChecked := daysChecked st + 1\<rparr>;
                workStart = time_Date (civil_day dayDate) WorkStartHour 0 0 0 l;
                workEnd0 = time_Date (civil_day dayDate) WorkEndHour 0 0 0 l;
                workEnd = (if Weekday dayDate = Friday
                           then time_Date (civil_day dayDate) 15 30 0 0 l else workEnd0)
            in case adjust_start minStartTime workEnd workStart of
                 None \<Rightarrow> st1
               | Some cur \<Rightarrow>
                   (case slot_loop busySlots workEnd cur (availableSlots st1, totalSlots st1) of
                      (slots', total') \<Rightarrow>
                        st1\<lparr>availableSlots := slots', totalSlots := total'\<rparr>)))"

definition target_location :: "tzdata \<Rightarrow> Location" where
  "target_location db =
     (case LoadLocation db ''America/Los_Angeles'' of Inl err \<Rightarrow> UTC | Inr l \<Rightarrow> l)"

definition GenerateAvailableSlots ::
  "tzdata \<Rightarrow> TimeRange list \<Rightarrow> time \<Rightarrow> TimeSlot list \<times> int \<times> int" where
  "GenerateAvailableSlots db busySlots referenceTime =
     (let l = target_location db;
          minStartTime = Add referenceTime (2 * time_Hour);
          startSearch = In referenceTime l;
          st = fold (day_body l busySlots minStartTime startSearch) [0 ..< MaxDays]
                 \<lparr>availableSlots = [], daysChecked = 0, totalSlots = 0\<rparr>
      in (availableSlots st, daysChecked st, totalSlots st))"

text \<open>
  The tz table of America/Los\_Angeles for 2023 to 2026 (Pacific Standard Time, and
  daylight saving time from the second Sunday of March to the first Sunday of November).
\<close>

definition los_angeles :: Location where
  "los_angeles = \<lparr>firstOffset = - 28800,
     tx = [(1678615200, - 25200), (1699174800, - 28800),
           (1710064800, - 25200), (1730624400, - 28800),
           (1741514400, - 25200), (1762074000, - 28800),
           (1772964000, - 25200), (1793523600, - 28800)]\<rparr>"

definition tzdb :: tzdata where
  "tzdb = [''America/Los_Angeles'' \<mapsto> los_angeles]"

section \<open>Notions used to state the properties of slot generation\<close>

text \<open>
  The candidate slots of one day: every slot the inner loop visits between the adjusted
  start and the end of the working day, whether it is busy or not.
\<close>

function slot_candidates :: "time \<Rightarrow> time \<Rightarrow> TimeSlot list" where
  "slot_candidates workEnd cur =
     (if Before (Add cur SlotDuration) workEnd \<or> Equal (Add cur SlotDuration) workEnd
      then formatSlot cur (Add cur SlotDuration) # slot_candidates workEnd (Add cur SlotDuration)
      else [])"
  by pat_completeness auto
termination
  by (relation "measure (\<lambda>(e, c). nat (unixNano e - unixNano c + 1))")
     (auto simp: Before_def Equal_def Add_def SlotDuration_def time_Minute_def time_Second_def)

declare slot_candidates.simps [simp del]

definition is_workday :: "time \<Rightarrow> nat \<Rightarrow> bool" where
  "is_workday startSearch d =
     (let dayDate = AddDate_days startSearch (int d)
      in \<not> (Weekday dayDate = Saturday \<or> Weekday dayDate = Sunday))"

text \<open>The end of the working day \<open>d\<close> and the start of its first slot, if the day has any.\<close>

definition day_end :: "Location \<Rightarrow> time \<Rightarrow> nat \<Rightarrow> time" where
  "day_end l startSearch d =
     (let dayDate = AddDate_days startSearch (int d)
      in if Weekday dayDate = Friday then time_Date (civil_day dayDate) 15 30 0 0 l
         else time_Date (civil_day dayDate) WorkEndHour 0 0 0 l)"

definition day_start :: "Location \<Rightarrow> time \<Rightarrow> time \<Rightarrow> nat \<Rightarrow> time option" where
  "day_start l minStartTime startSearch d =
     (let dayDate = AddDate_days startSearch (int d)
      in adjust_start minStartTime (day_end l startSearch d)
           (time_Date (civil_day dayDate) WorkStartHour 0 0 0 l))"

definition day_candidates :: "Location \<Rightarrow> time \<Rightarrow> time \<Rightarrow> nat \<Rightarrow> TimeSlot list" where
  "day_candidates l minStartTime startSearch d =
     (if is_workday startSearch d
      then (case day_start l minStartTime startSearch d of
              None \<Rightarrow> []
            | Some cur \<Rightarrow> slot_candidates (day_end l startSearch d) cur)
      else [])"

definition slot_busy :: "TimeRange list \<Rightarrow> TimeSlot \<Rightarrow> bool" where
  "slot_busy busySlots s = isBusy (Start s) (End s) busySlots"

text \<open>All candidate slots of the examined week, in the order in which the loops visit them.\<close>

definition week_candidates :: "tzdata \<Rightarrow> time \<Rightarrow> TimeSlot list" where
  "week_candidates db referenceTime =
     (let l = target_location db
      in concat (map (day_candidates l (Add referenceTime (2 * time_Hour)) (In referenceTime l))
                   [0 ..< MaxDays]))"

text \<open>The greatest absolute value of an offset of the table.\<close>

definition max_offset :: "Location \<Rightarrow> int" where
  "max_offset l = fold (\<lambda>p m. max \<bar>snd p\<bar> m) (tx l) \<bar>firstOffset l\<bar>"

text \<open>
  A day (by its number) is calm in a location when the offset does not change from
  \<open>max_offset\<close> seconds before its UTC midnight to \<open>max_offset\<close> seconds after the next
  one: the whole local day, and every wall clock reading of the day taken as if it were UTC,
  lie in one period of the table.
\<close>

definition calm :: "Location \<Rightarrow> int \<Rightarrow> bool" where
  "calm l N =
     (case lookup l (N * 86400) of (offset, start, end) \<Rightarrow>
        (case start of None \<Rightarrow> True | Some s \<Rightarrow> s + max_offset l \<le> N * 86400) \<and>
        (case end of None \<Rightarrow> True | Some e \<Rightarrow> (N + 1) * 86400 + max_offset l \<le> e))"

definition workday :: "int \<Rightarrow> bool" where
  "workday N = (weekday_of_day N \<noteq> Saturday \<and> weekday_of_day N \<noteq> Sunday)"

text \<open>
  A regular table: the transitions are in ascending order, the offset never changes on a
  working day (Monday to Friday), and on a Saturday or Sunday \<open>time.Date\<close> returns an
  instant of the day that was asked for (where the wall clock is set forward or back, Go
  returns a time that is correct in one of the two zones of the transition).
\<close>

definition regular :: "Location \<Rightarrow> bool" where
  "regular l =
     (sorted (map fst (tx l)) \<and>
      (\<forall>N. workday N \<longrightarrow> calm l N) \<and>
      (\<forall>N hour minute sec nsec.
         \<not> workday N \<longrightarrow> 0 \<le> hour * 3600 + minute * 60 + sec \<longrightarrow>
         hour * 3600 + minute * 60 + sec < 86400 \<longrightarrow> 0 \<le> nsec \<longrightarrow> nsec < 1000000000 \<longrightarrow>
         civil_day (time_Date N hour minute sec nsec l) = N))"

text \<open>A second lies within a period with the given bounds.\<close>

definition within :: "int option \<Rightarrow> int option \<Rightarrow> int \<Rightarrow> bool" where
  "within s e t = (\<not> before_start s t \<and> \<not> reached_end e t)"

text \<open>The offset in force at the UTC midnight of a day.\<close>

definition day_offset :: "Location \<Rightarrow> int \<Rightarrow> int" where
  "day_offset l N = fst (lookup l (N * 86400))"






text \<open>
  Reference instants used in the examples below, all in Pacific time: Monday 2024-01-08
  08:00:30 and Friday 2024-01-12 14:00:00 (standard time, no change of offset near), and
  three instants whose week contains a change of offset: Thursday 2024-03-07 18:00:00 and
  Friday 2024-03-08 14:00:00 (daylight saving time begins on Sunday 2024-03-10), Friday
  2024-11-01 00:30:00 (it ends on Sunday 2024-11-03).
\<close>

definition monday_080030 :: time where
  "monday_080030 = \<lparr>unixNano = 1704729630000000000, tloc = los_angeles\<rparr>"

definition friday_1400 :: time where
  "friday_1400 = \<lparr>unixNano = 1705096800000000000, tloc = los_angeles\<rparr>"







section \<open>Strings\<close>

text \<open>
  A Go string is a sequence of bytes holding UTF-8 text. \<open>strings.TrimSpace\<close> removes the
  white space runes of Unicode from both ends: the six of ASCII, and U+0085, U+00A0, U+1680,
  U+2000 to U+200A, U+2028, U+2029, U+202F, U+205F and U+3000 in their UTF-8 encoding.
\<close>

definition asciiSpace :: "char \<Rightarrow> bool" where
  "asciiSpace c = (c \<in> {CHR 0x09, CHR 0x0A, CHR 0x0B, CHR 0x0C, CHR 0x0D, CHR 0x20})"

definition space_rune2 :: "char \<Rightarrow> char \<Rightarrow> bool" where
  "space_rune2 c1 c2 = (c1 = CHR 0xC2 \<and> (c2 = CHR 0x85 \<or> c2 = CHR 0xA0))"

definition space_rune3 :: "char \<Rightarrow> char \<Rightarrow> char \<Rightarrow> bool" where
  "space_rune3 c1 c2 c3 =
     ((c1 = CHR 0xE1 \<and> c2 = CHR 0x9A \<and> c3 = CHR 0x80) \<or>
      (c1 = CHR 0xE2 \<and> c2 = CHR 0x80 \<and>
         (c3 \<in> {CHR 0x80, CHR 0x81, CHR 0x82, CHR 0x83, CHR 0x84, CHR 0x85, CHR 0x86,
                 CHR 0x87, CHR 0x88, CHR 0x89, CHR 0x8A, CHR 0xA8, CHR 0xA9, CHR 0xAF})) \<or>
      (c1 = CHR 0xE2 \<and> c2 = CHR 0x81 \<and> c3 = CHR 0x9F) \<or>
      (c1 = CHR 0xE3 \<and> c2 = CHR 0x80 \<and> c3 = CHR 0x80))"

fun trim_left :: "string \<Rightarrow> string" where
  "trim_left (c1 # c2 # c3 # s) =
     (if asciiSpace c1 then trim_left (c2 # c3 # s)
      else if space_rune2 c1 c2 then trim_left (c3 # s)
      else if space_rune3 c1 c2 c3 then trim_left s
      else c1 # c2 # c3 # s)"
| "trim_left [c1, c2] =
     (if asciiSpace c1 then trim_left [c2]
      else if space_rune2 c1 c2 then [] else [c1, c2])"
| "trim_left [c1] = (if asciiSpace c1 then [] else [c1])"
| "trim_left [] = []"

text \<open>The same from the end, on the reversed string (last byte first).\<close>

fun trim_right_rev :: "string \<Rightarrow> string" where
  "trim_right_rev (c3 # c2 # c1 # s) =
     (if asciiSpace c3 then trim_right_rev (c2 # c1 # s)
      else if space_rune2 c2 c3 then trim_right_rev (c1 # s)
      else if space_rune3 c1 c2 c3 then trim_right_rev s
      else c3 # c2 # c1 # s)"
| "trim_right_rev [c3, c2] =
     (if asciiSpace c3 then trim_right_rev [c2]
      else if space_rune2 c2 c3 then [] else [c3, c2])"
| "trim_right_rev [c3] = (if asciiSpace c3 then [] else [c3])"
| "trim_right_rev [] = []"

definition TrimSpace :: "string \<Rightarrow> string" where
  "TrimSpace s = rev (trim_right_rev (rev (trim_left s)))"

text \<open>
  \<open>strings.ToUpper\<close> on the letters of ASCII. A rune outside ASCII is kept as it is: Go
  maps it to its upper case form, which is never one of the characters \<open>P\<close>, \<open>D\<close> and
  \<open>1\<close> to \<open>4\<close> of the keys of the zone table, so whether a label is a key is not affected.
\<close>

definition upper_char :: "char \<Rightarrow> char" where
  "upper_char c =
     (case List.find (\<lambda>p. fst p = c)
             (zip ''abcdefghijklmnopqrstuvwxyz'' ''ABCDEFGHIJKLMNOPQRSTUVWXYZ'') of
        Some p \<Rightarrow> snd p
      | None \<Rightarrow> c)"

definition ToUpper :: "string \<Rightarrow> string" where
  "ToUpper s = map upper_char s"

section \<open>Agent lookup (package logic, mapper.go)\<close>

text \<open>
  Several structs of package models have fields of the same name; the fields of
  AppFolioGroup, PropertyInfo and AppFolioProperty carry the prefixes \<open>group_\<close>, \<open>prop_\<close>
  and \<open>af_\<close> here.
\<close>

record AgentInfo =
  ID :: string
  Name :: string
  Email :: string
  Zone :: string
  ZoneGroup :: string

record AppFolioGroup =
  group_ID :: string
  group_Name :: string

definition PDAgentMap :: "string \<rightharpoonup> AgentInfo" where
  "PDAgentMap = map_of
     [(''PD1'', \<lparr>ID = ''59a26c67-5791-11f0-b6c3-02094d1ce055'', Name = ''Gracie'',
                Email = ''gracie@ltrealestateco.com'', Zone = ''PD1'', ZoneGroup = ''''\<rparr>),
      (''PD2'', \<lparr>ID = ''dcb80b8a-66bd-11ee-b6c3-02094d1ce055'', Name = ''Elizabeth'',
                Email = ''elizabeth@ltrealestateco.com'', Zone = ''PD2'', ZoneGroup = ''''\<rparr>),
      (''PD3'', \<lparr>ID = ''4d6b75fd-5791-11f0-b6c3-02094d1ce055'', Name = ''Alexandra'',
                Email = ''alexandra@ltrealestateco.com'', Zone = ''PD3'', ZoneGroup = ''''\<rparr>),
      (''PD4'', \<lparr>ID = ''4b8f5454-ef30-11ef-b6c3-02094d1ce055'', Name = ''Brandi'',
                Email = ''brandi@ltrealestateco.com'', Zone = ''PD4'', ZoneGroup = ''''\<rparr>)]"

fun MapAgent :: "AppFolioGroup list \<Rightarrow> AgentInfo option" where
  "MapAgent [] = None"
| "MapAgent (grp # grps) =
     (let name = ToUpper (TrimSpace (group_Name grp))
      in case PDAgentMap name of
           Some agent \<Rightarrow> Some (agent\<lparr>ZoneGroup := group_Name grp\<rparr>)
         | None \<Rightarrow> MapAgent grps)"

section \<open>Request pipeline (package main)\<close>

record PropertyInfo =
  prop_ID :: string
  prop_Name :: string
  prop_Address :: string
  prop_City :: string
  prop_State :: string

record AppFolioProperty =
  af_ID :: string
  af_Name :: string
  af_Address1 :: string
  af_City :: string
  af_State :: string
  af_PropertyGroupIds :: "string list"

record Availability =
  TotalSlotsAvailable :: int
  DaysChecked :: int
  Slots :: "TimeSlot list"

record Response =
  Success :: bool
  Property :: PropertyInfo
  Agent :: AgentInfo
  Availability :: Availability
  Message :: string
  FormattedMsg :: string

text \<open>The zero values of Go for the fields that a response literal leaves out.\<close>

definition zero_PropertyInfo :: PropertyInfo where
  "zero_PropertyInfo =
     \<lparr>prop_ID = '''', prop_Name = '''', prop_Address = '''', prop_City = '''', prop_State = ''''\<rparr>"

definition zero_AgentInfo :: AgentInfo where
  "zero_AgentInfo = \<lparr>ID = '''', Name = '''', Email = '''', Zone = '''', ZoneGroup = ''''\<rparr>"

definition zero_Availability :: Availability where
  "zero_Availability = \<lparr>TotalSlotsAvailable = 0, DaysChecked = 0, Slots = []\<rparr>"

definition mapPropertyInfo :: "AppFolioProperty \<Rightarrow> PropertyInfo" where
  "mapPropertyInfo p =
     \<lparr>prop_ID = af_ID p, prop_Name = af_Name p, prop_Address = af_Address1 p,
      prop_City = af_City p, prop_State = af_State p\<rparr>"

definition limitSlots :: "TimeSlot list \<Rightarrow> int \<Rightarrow> TimeSlot list" where
  "limitSlots slots max_slots =
     (if int (length slots) > max_slots then take (nat max_slots) slots else slots)"

subsection \<open>Message formatting\<close>

text \<open>The pictographs of the message, in UTF-8.\<close>

definition emoji_house :: string where
  "emoji_house = [CHR 0xF0, CHR 0x9F, CHR 0x8F, CHR 0xA0]"

definition emoji_pin :: string where
  "emoji_pin = [CHR 0xF0, CHR 0x9F, CHR 0x93, CHR 0x8D]"

definition emoji_person :: string where
  "emoji_person = [CHR 0xF0, CHR 0x9F, CHR 0x91, CHR 0xA4]"

definition emoji_mail :: string where
  "emoji_mail = [CHR 0xF0, CHR 0x9F, CHR 0x93, CHR 0xA7]"

definition emoji_calendar :: string where
  "emoji_calendar = [CHR 0xF0, CHR 0x9F, CHR 0x93, CHR 0x85]"

definition emoji_phone :: string where
  "emoji_phone = [CHR 0xF0, CHR 0x9F, CHR 0x93, CHR 0x9E]"

definition bullet :: string where
  "bullet = [CHR 0xE2, CHR 0x80, CHR 0xA2]"

text \<open>
  The grouping loop: \<open>slotsByDate\<close> maps a date to its times and \<open>orderedDates\<close> records
  the dates in the order in which they are first seen.
\<close>

fun group_loop ::
  "TimeSlot list \<Rightarrow> (string \<rightharpoonup> string list) \<times> string list \<Rightarrow>
   (string \<rightharpoonup> string list) \<times> string list" where
  "group_loop [] (slotsByDate, orderedDates) = (slotsByDate, orderedDates)"
| "group_loop (slot # slots) (slotsByDate, orderedDates) =
     (let orderedDates' = (if slotsByDate (Date slot) = None
                           then orderedDates @ [Date slot] else orderedDates);
          old = (case slotsByDate (Date slot) of None \<Rightarrow> [] | Some ts \<Rightarrow> ts)
      in group_loop slots (slotsByDate(Date slot \<mapsto> old @ [Time slot]), orderedDates'))"

text \<open>The loop over the times of one date; \<open>n\<close> is \<open>len(times)\<close> and \<open>i\<close> the index.\<close>

fun times_loop :: "string list \<Rightarrow> int \<Rightarrow> int \<Rightarrow> string \<Rightarrow> string" where
  "times_loop [] i n msg = msg"
| "times_loop (t # ts) i n msg =
     (if i \<ge> 6
      then msg @ ''  '' @ bullet @ '' ...'' @ itoa (n - 6) @ '' more times available\<newline>''
      else times_loop ts (i + 1) n (msg @ ''  '' @ bullet @ '' '' @ t @ ''\<newline>''))"

fun dates_loop :: "(string \<rightharpoonup> string list) \<Rightarrow> string list \<Rightarrow> int \<Rightarrow> string \<Rightarrow> string" where
  "dates_loop slotsByDate [] count msg = msg"
| "dates_loop slotsByDate (date # dates) count msg =
     (if count \<ge> 5 then msg
      else (let times = (case slotsByDate date of None \<Rightarrow> [] | Some ts \<Rightarrow> ts);
                msg1 = msg @ date @ '':\<newline>'';
                msg2 = times_loop times 0 (int (length times)) msg1;
                msg3 = msg2 @ ''\<newline>''
            in dates_loop slotsByDate dates (count + 1) msg3))"

definition formatMessage :: "PropertyInfo \<Rightarrow> AgentInfo \<Rightarrow> Availability \<Rightarrow> int \<Rightarrow> string" where
  "formatMessage prop agent avail totalGenerated =
     (let msg = emoji_house @ '' PROPERTY: '' @ prop_Name prop @ ''\<newline>'' @ emoji_pin @ '' '' @
                prop_Address prop @ '', '' @ prop_City prop @ '', '' @ prop_State prop @
                ''\<newline>\<newline>'';
          msg = msg @ emoji_person @ '' LEASING AGENT: '' @ Name agent @ ''\<newline>'' @ emoji_mail @
                '' Email: '' @ Email agent @ ''\<newline>\<newline>''
      in if length (Slots avail) = 0
         then (let msg = msg @ emoji_calendar @ '' SHOWING AVAILABILITY:\<newline>'' @
                         ''No available time slots found in the next '' @
                         itoa (DaysChecked avail) @ '' days.\<newline>'';
                   msg = msg @ Name agent @ [CHR 0x27] @ ''s calendar is fully booked.\<newline>\<newline>'';
                   msg = msg @ emoji_phone @ '' Please contact '' @ Name agent @
                         '' directly at '' @ Email agent @ '' to schedule.''
               in msg)
         else (let msg = msg @ emoji_calendar @ '' AVAILABLE SHOWING TIMES:\<newline>\<newline>'';
                   (slotsByDate, orderedDates) = group_loop (Slots avail) (Map.empty, []);
                   msg = dates_loop slotsByDate orderedDates 0 msg;
                   msg = (if int (length orderedDates) > 5
                          then msg @ ''...and '' @ itoa (int (length orderedDates) - 5) @
                               '' more days with availability\<newline>''
                          else msg);
                   msg = msg @ ''\<newline>'' @ emoji_phone @ '' Contact '' @ Name agent @ '' at '' @
                         Email agent @ '' to schedule your showing.''
               in msg))"

subsection \<open>The pipeline\<close>

text \<open>
  The collaborators of the pipeline (search, property details, groups, credential store,
  calendar), the clock and the tz database are its environment; a failing call returns
  \<open>Inl\<close> with the error text.
\<close>

record Env =
  FindPropertyID :: "string \<Rightarrow> string + string"
  GetProperty :: "string \<Rightarrow> string + AppFolioProperty"
  GetPropertyGroups :: "string list \<Rightarrow> string + AppFolioGroup list"
  GetAccessToken :: "string \<Rightarrow> string + string"
  GetBusySlots :: "string \<Rightarrow> string \<Rightarrow> time \<Rightarrow> time \<Rightarrow> string + TimeRange list"
  time_Now :: time
  zoneinfo :: tzdata

text \<open>
  What the handler returns: \<open>errorResponse\<close> with a status and a text, \<open>successResponse\<close>
  with a response (status 200), or a run-time panic.
\<close>

datatype LambdaResponse =
  errorResponse int string
| successResponse Response
| Panic string

text \<open>
  The handler from the point at which the event has been parsed: \<open>query\<close> is the query of
  the request and \<open>extractedPropertyID\<close> the identifier chosen by the address matcher
  (empty when there is none). Log entries are not part of the model.
\<close>

definition HandleRequest :: "Env \<Rightarrow> string \<Rightarrow> string \<Rightarrow> LambdaResponse" where
  "HandleRequest env query extractedPropertyID =
     (if query = '''' then errorResponse 400 ''Query is required''
      else
      case (if extractedPropertyID \<noteq> '''' then Inr extractedPropertyID
            else FindPropertyID env query) of
        Inl err \<Rightarrow>
          successResponse
            \<lparr>Success = False, Property = zero_PropertyInfo, Agent = zero_AgentInfo,
             Availability = zero_Availability,
             Message = ''Could not find property matching query.'',
             FormattedMsg = ''I couldn't find a property matching '' @ [CHR 0x27] @ query @
               [CHR 0x27] @ ''. Could you verify the address?''\<rparr>
      | Inr propID \<Rightarrow>
      case GetProperty env propID of
        Inl err \<Rightarrow>
          successResponse
            \<lparr>Success = False, Property = zero_PropertyInfo, Agent = zero_AgentInfo,
             Availability = zero_Availability,
             Message = ''Property found but details unavailable.'',
             FormattedMsg = ''I found the property but couldn't access its details right now.''\<rparr>
      | Inr prop \<Rightarrow>
      case GetPropertyGroups env (af_PropertyGroupIds prop) of
        Inl err \<Rightarrow>
          successResponse
            \<lparr>Success = False, Property = mapPropertyInfo prop, Agent = zero_AgentInfo,
             Availability = zero_Availability,
             Message = ''Could not determine agent.'',
             FormattedMsg = ''I have the details for '' @ af_Address1 prop @
               '', but I'm having trouble finding the assigned agent.''\<rparr>
      | Inr grps \<Rightarrow>
      case MapAgent grps of
        None \<Rightarrow>
          successResponse
            \<lparr>Success = False, Property = mapPropertyInfo prop, Agent = zero_AgentInfo,
             Availability = zero_Availability,
             Message = ''No leasing agent assigned (No PD group).'',
             FormattedMsg = ''I checked '' @ af_Address1 prop @
               '', but there doesn't seem to be a leasing agent assigned to it yet.''\<rparr>
      | Some agent \<Rightarrow>
      case GetAccessToken env (Email agent) of
        Inl err \<Rightarrow>
          successResponse
            \<lparr>Success = False, Property = mapPropertyInfo prop, Agent = agent,
             Availability = zero_Availability,
             Message = ''Agent calendar access unavailable.'',
             FormattedMsg = ''I'd love to schedule a viewing for '' @ af_Address1 prop @
               '', but I can't access '' @ Name agent @ [CHR 0x27] @
               ''s calendar right now. Please email them at '' @ Email agent @ ''.''\<rparr>
      | Inr token \<Rightarrow>
      case LoadLocation (zoneinfo env) ''America/Los_Angeles'' of
        Inl err \<Rightarrow> Panic ''time: missing Location in call to Time.In''
      | Inr pstLoc \<Rightarrow>
      (let now = In (time_Now env) pstLoc;
           timeMax = AddDate_days now 7
       in case GetBusySlots env token (Email agent) now timeMax of
            Inl err \<Rightarrow>
              successResponse
                \<lparr>Success = False, Property = mapPropertyInfo prop, Agent = agent,
                 Availability = zero_Availability,
                 Message = ''Failed to read calendar.'',
                 FormattedMsg = ''I'm having trouble checking '' @ Name agent @ [CHR 0x27] @
                   ''s availability. Please contact them directly at '' @ Email agent @ ''.''\<rparr>
          | Inr busySlots \<Rightarrow>
              (case GenerateAvailableSlots (zoneinfo env) busySlots now of
                 (available, days, totalGenerated) \<Rightarrow>
                   (let avail = \<lparr>TotalSlotsAvailable = int (length available),
                                 DaysChecked = days,
                                 Slots = limitSlots available 30\<rparr>;
                        formattedMsg = formatMessage (mapPropertyInfo prop) agent avail
                                         totalGenerated
                    in successResponse
                         \<lparr>Success = True, Property = mapPropertyInfo prop, Agent = agent,
                          Availability = avail, Message = ''Success'',
                          FormattedMsg = formattedMsg\<rparr>))))"

section \<open>The message as the specification describes it\<close>

text \<open>The distinct elements of a list in the order of their first occurrence.\<close>

fun first_seen :: "'a list \<Rightarrow> 'a list" where
  "first_seen [] = []"
| "first_seen (x # xs) = x # first_seen (filter (\<lambda>y. y \<noteq> x) xs)"

text \<open>The slots grouped by display date: each date once, with all its times in order.\<close>

definition slots_by_date :: "TimeSlot list \<Rightarrow> (string \<times> string list) list" where
  "slots_by_date slots =
     map (\<lambda>d. (d, map Time (filter (\<lambda>s. Date s = d) slots))) (first_seen (map Date slots))"

definition time_line :: "string \<Rightarrow> string" where
  "time_line t = ''  '' @ bullet @ '' '' @ t @ ''\<newline>''"

definition more_times_line :: "int \<Rightarrow> string" where
  "more_times_line n = ''  '' @ bullet @ '' ...'' @ itoa n @ '' more times available\<newline>''"

definition more_days_line :: "int \<Rightarrow> string" where
  "more_days_line n = ''...and '' @ itoa n @ '' more days with availability\<newline>''"

text \<open>At most six times of a date, and a summary line exactly when there are more.\<close>

definition render_date :: "string \<times> string list \<Rightarrow> string" where
  "render_date g =
     fst g @ '':\<newline>'' @ concat (map time_line (take 6 (snd g))) @
     (if length (snd g) > 6 then more_times_line (int (length (snd g)) - 6) else '''') @
     ''\<newline>''"

definition message_header :: "PropertyInfo \<Rightarrow> AgentInfo \<Rightarrow> string" where
  "message_header prop agent =
     emoji_house @ '' PROPERTY: '' @ prop_Name prop @ ''\<newline>'' @ emoji_pin @ '' '' @
     prop_Address prop @ '', '' @ prop_City prop @ '', '' @ prop_State prop @ ''\<newline>\<newline>'' @
     emoji_person @ '' LEASING AGENT: '' @ Name agent @ ''\<newline>'' @ emoji_mail @
     '' Email: '' @ Email agent @ ''\<newline>\<newline>''"

definition contact_line :: "AgentInfo \<Rightarrow> bool \<Rightarrow> string" where
  "contact_line agent booked =
     (if booked
      then emoji_phone @ '' Please contact '' @ Name agent @ '' directly at '' @ Email agent @
           '' to schedule.''
      else emoji_phone @ '' Contact '' @ Name agent @ '' at '' @ Email agent @
           '' to schedule your showing.'')"

definition fully_booked :: "AgentInfo \<Rightarrow> int \<Rightarrow> string" where
  "fully_booked agent days =
     emoji_calendar @ '' SHOWING AVAILABILITY:\<newline>'' @
     ''No available time slots found in the next '' @ itoa days @ '' days.\<newline>'' @
     Name agent @ [CHR 0x27] @ ''s calendar is fully booked.\<newline>\<newline>''"

text \<open>
  At most five dates, a summary line exactly when there are more, the fully-booked text
  when there is no slot, and the contact line at the end.
\<close>

definition formatMessage_spec :: "PropertyInfo \<Rightarrow> AgentInfo \<Rightarrow> Availability \<Rightarrow> string" where
  "formatMessage_spec prop agent avail =
     message_header prop agent @
     (if Slots avail = []
      then fully_booked agent (DaysChecked avail) @ contact_line agent True
      else emoji_calendar @ '' AVAILABLE SHOWING TIMES:\<newline>\<newline>'' @
           concat (map render_date (take 5 (slots_by_date (Slots avail)))) @
           (if length (slots_by_date (Slots avail)) > 5
            then more_days_line (int (length (slots_by_date (Slots avail))) - 5) else '''') @
           ''\<newline>'' @ contact_line agent False)"

section \<open>Notions used to state the properties of the message and the pipeline\<close>

text \<open>The times stored for a date in the map of the grouping loop (none for a missing date).\<close>

definition times_in :: "(string \<rightharpoonup> string list) \<Rightarrow> string \<Rightarrow> string list" where
  "times_in m d = (case m d of None \<Rightarrow> [] | Some ts \<Rightarrow> ts)"

text \<open>The display times of the slots of a date, in the order of the slots.\<close>

definition times_of :: "string \<Rightarrow> TimeSlot list \<Rightarrow> string list" where
  "times_of d slots = map Time (filter (\<lambda>s. Date s = d) slots)"

text \<open>
  An environment in which the property and its groups are found and the credential store
  has no token.
\<close>

definition example_env :: Env where
  "example_env =
     \<lparr>FindPropertyID = (\<lambda>q. Inr ''p-1''),
      GetProperty = (\<lambda>i. Inr \<lparr>af_ID = ''p-1'', af_Name = ''Maple Court'',
                                af_Address1 = ''12 Maple St'', af_City = ''Fresno'',
                                af_State = ''CA'', af_PropertyGroupIds = [''g1'']\<rparr>),
      GetPropertyGroups = (\<lambda>ids. Inr [\<lparr>group_ID = ''g1'', group_Name = ''pd2''\<rparr>]),
      GetAccessToken = (\<lambda>email. Inl ''no token found for email''),
      GetBusySlots = (\<lambda>token email tmin tmax. Inr []),
      time_Now = friday_1400,
      zoneinfo = tzdb\<rparr>"

text \<open>
  A property, an agent and a list of slots given by their display strings only: sixteen
  times on a first date (one of them listed after a slot of the second date) and one time
  on each of five further dates.
\<close>

definition example_property :: PropertyInfo where
  "example_property =
     \<lparr>prop_ID = ''p-1'', prop_Name = ''Maple Court'', prop_Address = ''12 Maple St'',
      prop_City = ''Fresno'', prop_State = ''CA''\<rparr>"

definition example_agent :: AgentInfo where
  "example_agent =
     \<lparr>ID = ''dcb80b8a-66bd-11ee-b6c3-02094d1ce055'', Name = ''Elizabeth'',
      Email = ''elizabeth@ltrealestateco.com'', Zone = ''PD2'', ZoneGroup = ''pd2''\<rparr>"

definition display_slot :: "string \<Rightarrow> string \<Rightarrow> TimeSlot" where
  "display_slot d t =
     \<lparr>Start = \<lparr>unixNano = 0, tloc = UTC\<rparr>, End = \<lparr>unixNano = 0, tloc = UTC\<rparr>,
      Date = d, Time = t\<rparr>"

definition example_slots :: "TimeSlot list" where
  "example_slots =
     map (display_slot ''Monday, January 8, 2024'')
       [''9:00 AM'', ''9:30 AM'', ''10:00 AM'', ''10:30 AM'', ''11:00 AM'', ''11:30 AM'',
        ''12:00 PM'', ''12:30 PM'', ''1:00 PM'', ''1:30 PM'', ''2:00 PM'', ''2:30 PM'',
        ''3:00 PM'', ''3:30 PM'', ''4:00 PM''] @
     [display_slot ''Tuesday, January 9, 2024'' ''9:00 AM'',
      display_slot ''Monday, January 8, 2024'' ''4:30 PM'',
      display_slot ''Wednesday, January 10, 2024'' ''9:00 AM'',
      display_slot ''Thursday, January 11, 2024'' ''9:00 AM'',
      display_slot ''Friday, January 12, 2024'' ''9:00 AM'',
      display_slot ''Monday, January 15, 2024'' ''9:00 AM'']"

section \<open>Properties of slot generation\<close>

lemma isBusy_iff:
  "isBusy s e busy \<longleftrightarrow> (\<exists>b \<in> set busy. unixNano s < unixNano (End b) \<and> unixNano e > unixNano (Start b))"
  by (induction busy) (auto simp: Before_def After_def In_def Let_def)

lemma slot_loop_eq:
  "slot_loop busy e c (a, n) =
     (a @ filter (\<lambda>s. \<not> slot_busy busy s) (slot_candidates e c),
      n + int (length (slot_candidates e c)))"
proof (induction busy e c "(a, n)" arbitrary: a n rule: slot_loop.induct)
  case (1 busy e c a n)
  show ?case
  proof (cases "Before (Add c SlotDuration) e \<or> Equal (Add c SlotDuration) e")
    case True
    show ?thesis
      using True "1.hyps" [OF True refl refl]
      by (subst slot_loop.simps, subst slot_candidates.simps, subst (2) slot_candidates.simps)
         (simp add: Let_def slot_busy_def formatSlot_def)
  next
    case False
    then show ?thesis
      by (subst slot_loop.simps, subst slot_candidates.simps, subst (2) slot_candidates.simps)
         simp
  qed
qed

lemma day_body_weekend:
  "\<not> is_workday startS d \<Longrightarrow> day_body l busy minS startS d st = st"
  by (simp add: day_body_def is_workday_def Let_def)

lemma day_body_skipped:
  "is_workday startS d \<Longrightarrow> day_start l minS startS d = None \<Longrightarrow>
   day_body l busy minS startS d st = st\<lparr>daysChecked := daysChecked st + 1\<rparr>"
  by (simp add: day_body_def is_workday_def day_start_def day_end_def Let_def)

lemma day_body_slots:
  "is_workday startS d \<Longrightarrow> day_start l minS startS d = Some cur \<Longrightarrow>
   day_body l busy minS startS d st =
     st\<lparr>daysChecked := daysChecked st + 1,
        availableSlots := availableSlots st @
           filter (\<lambda>s. \<not> slot_busy busy s) (slot_candidates (day_end l startS d) cur),
        totalSlots := totalSlots st + int (length (slot_candidates (day_end l startS d) cur))\<rparr>"
  by (simp add: day_body_def is_workday_def day_start_def day_end_def Let_def slot_loop_eq)

lemma day_body_eq:
  "day_body l busy minS startS d st =
     st\<lparr>availableSlots := availableSlots st @
           filter (\<lambda>s. \<not> slot_busy busy s) (day_candidates l minS startS d),
        daysChecked := daysChecked st + (if is_workday startS d then 1 else 0),
        totalSlots := totalSlots st + int (length (day_candidates l minS startS d))\<rparr>"
proof (cases "is_workday startS d")
  case False
  then show ?thesis
    by (simp add: day_body_weekend day_candidates_def)
next
  case True
  show ?thesis
  proof (cases "day_start l minS startS d")
    case None
    with True show ?thesis
      by (simp add: day_body_skipped day_candidates_def)
  next
    case (Some cur)
    with True show ?thesis
      by (simp add: day_body_slots day_candidates_def)
  qed
qed

lemma fold_day_body_eq:
  "fold (day_body l busy minS startS) ds st =
     st\<lparr>availableSlots := availableSlots st @
           filter (\<lambda>s. \<not> slot_busy busy s) (concat (map (day_candidates l minS startS) ds)),
        daysChecked := daysChecked st + int (length (filter (is_workday startS) ds)),
        totalSlots := totalSlots st +
           int (length (concat (map (day_candidates l minS startS) ds)))\<rparr>"
proof (induction ds arbitrary: st)
  case Nil
  show ?case by simp
next
  case (Cons d ds)
  show ?case
    apply (simp only: fold_simps o_apply)
    apply (subst Cons.IH)
    apply (subst day_body_eq)+
    apply simp
    done
qed

lemma GenerateAvailableSlots_eq:
  "GenerateAvailableSlots db busy ref =
     (filter (\<lambda>s. \<not> slot_busy busy s) (week_candidates db ref),
      int (length (filter (is_workday (In ref (target_location db))) [0 ..< MaxDays])),
      int (length (week_candidates db ref)))"
  by (simp add: GenerateAvailableSlots_def week_candidates_def Let_def fold_day_body_eq)

lemma slot_busy_Nil: "slot_busy [] s = False"
  by (simp add: slot_busy_def)

lemma candidates_as_run: "fst (GenerateAvailableSlots db [] ref) = week_candidates db ref"
  by (simp add: GenerateAvailableSlots_eq slot_busy_Nil)

subsection \<open>Overlap test\<close>

text \<open>
  Claim C3. A candidate slot \<open>[s, e)\<close> is excluded as busy exactly when some busy interval
  \<open>[bs, be)\<close> has \<open>s < be\<close> and \<open>e > bs\<close>, both strict; hence a busy interval that ends
  at the very instant at which the candidate starts (such as 09:00 to 09:30 against the
  candidate 09:30 to 10:00) does not exclude it.
\<close>

theorem isBusy_half_open:
  "(isBusy s e busy \<longleftrightarrow> (\<exists>b \<in> set busy. Before s (End b) \<and> After e (Start b))) \<and>
   \<not> isBusy s e [\<lparr>Start = bs, End = s\<rparr>]"
  by (simp add: isBusy_iff Before_def After_def In_def)

theorem isBusy_half_open_witness:
  "\<not> isBusy (time_Date 19730 9 30 0 0 los_angeles) (time_Date 19730 10 0 0 0 los_angeles)
       [\<lparr>Start = time_Date 19730 9 0 0 0 los_angeles,
         End = time_Date 19730 9 30 0 0 los_angeles\<rparr>] \<and>
   isBusy (time_Date 19730 9 30 0 0 los_angeles) (time_Date 19730 10 0 0 0 los_angeles)
       [\<lparr>Start = time_Date 19730 9 0 0 0 los_angeles,
         End = time_Date 19730 9 31 0 0 los_angeles\<rparr>]"
proof -
  let ?s = "time_Date 19730 9 30 0 0 los_angeles"
  let ?e = "time_Date 19730 10 0 0 0 los_angeles"
  let ?b = "time_Date 19730 9 0 0 0 los_angeles"
  let ?b' = "time_Date 19730 9 31 0 0 los_angeles"
  have n: "unixNano ?s = 1704735000000000000" "unixNano ?e = 1704736800000000000"
    "unixNano ?b = 1704733200000000000" "unixNano ?b' = 1704735060000000000"
    by (simp_all add: time_Date_def lookup_def los_angeles_def Let_def)
  have "\<not> isBusy ?s ?e [\<lparr>Start = ?b, End = ?s\<rparr>]"
    using isBusy_half_open [of ?s ?e "[]" ?b] by simp
  moreover have "isBusy ?s ?e [\<lparr>Start = ?b, End = ?b'\<rparr>]"
    using isBusy_half_open [of ?s ?e "[\<lparr>Start = ?b, End = ?b'\<rparr>]" ?b]
    by (simp add: Before_def After_def n)
  ultimately show ?thesis by simp
qed

subsection \<open>Counters\<close>

text \<open>
  Claim C10. The number of days examined and the number of candidate slots returned by
  GenerateAvailableSlots are the same for any two lists of busy intervals: they depend on
  the reference instant (and the time zone data) only.
\<close>

theorem counters_independent_of_busy:
  "snd (GenerateAvailableSlots db busy1 ref) = snd (GenerateAvailableSlots db busy2 ref)"
  by (simp add: GenerateAvailableSlots_eq)

text \<open>
  Claim C5. The candidate slots are the slots that GenerateAvailableSlots emits when nothing
  is busy. For every list of busy intervals (non-overlapping or not) the free slots are the
  candidates that are not busy, and the count of candidates returned equals the number of
  free slots plus the number of candidates excluded as busy.
\<close>

theorem total_is_free_plus_excluded:
  "(case GenerateAvailableSlots db busy ref of (free, days, n) \<Rightarrow>
      free = filter (\<lambda>s. \<not> slot_busy busy s) (fst (GenerateAvailableSlots db [] ref)) \<and>
      n = int (length free) +
          int (length (filter (slot_busy busy) (fst (GenerateAvailableSlots db [] ref)))))"
proof -
  let ?C = "week_candidates db ref"
  have "int (length ?C) = int (length (filter (\<lambda>s. \<not> slot_busy busy s) ?C)) +
          int (length (filter (slot_busy busy) ?C))"
    using sum_length_filter_compl [of "slot_busy busy" ?C] by linarith
  then show ?thesis
    by (simp add: GenerateAvailableSlots_eq slot_busy_Nil)
qed

subsection \<open>Lookup in a table of transitions\<close>

lemma next_day: "(N + 1) * 86400 = N * 86400 + (86400::int)"
  by simp

lemma lookup_from_start_ge:
  "sorted (map fst txs) \<Longrightarrow> \<forall>w \<in> fst ` set txs. w0 \<le> w \<Longrightarrow>
   lookup_from off (Some w0) txs sec = (o', s, e) \<Longrightarrow> \<exists>s'. s = Some s' \<and> w0 \<le> s'"
proof (induction txs arbitrary: off w0)
  case Nil
  then show ?case by auto
next
  case (Cons p txs)
  obtain w off1 where p: "p = (w, off1)" by (cases p)
  show ?case
  proof (cases "sec < w")
    case True
    with Cons.prems p show ?thesis by auto
  next
    case False
    have "\<exists>s'. s = Some s' \<and> w \<le> s'"
      using Cons.IH [of w off1] Cons.prems p False by auto
    moreover have "w0 \<le> w" using Cons.prems p by simp
    ultimately show ?thesis by auto
  qed
qed

lemma lookup_from_stable:
  "sorted (map fst txs) \<Longrightarrow> lookup_from off st txs sec = (o', s, e) \<Longrightarrow>
   within s e t \<Longrightarrow> lookup_from off st txs t = (o', s, e)"
proof (induction txs arbitrary: off st)
  case Nil
  then show ?case by simp
next
  case (Cons p txs)
  obtain w off1 where p: "p = (w, off1)" by (cases p)
  show ?case
  proof (cases "sec < w")
    case True
    with Cons.prems p show ?thesis by (auto simp: within_def reached_end_def)
  next
    case False
    have rec: "lookup_from off1 (Some w) txs sec = (o', s, e)"
      using Cons.prems p False by simp
    obtain s' where s': "s = Some s'" "w \<le> s'"
      using lookup_from_start_ge [OF _ _ rec] Cons.prems(1) p by auto
    then have "\<not> t < w" using Cons.prems(3) by (simp add: within_def before_start_def)
    moreover have "lookup_from off1 (Some w) txs t = (o', s, e)"
      using Cons.IH [OF _ rec Cons.prems(3)] Cons.prems(1) by simp
    ultimately show ?thesis using p by simp
  qed
qed

lemma lookup_stable:
  "sorted (map fst (tx l)) \<Longrightarrow> lookup l sec = (o', s, e) \<Longrightarrow> within s e t \<Longrightarrow>
   lookup l t = (o', s, e)"
  unfolding lookup_def by (rule lookup_from_stable)

lemma fold_max_ge: "(m::int) \<le> fold (\<lambda>p m. max \<bar>snd p\<bar> m) txs m"
proof (induction txs arbitrary: m)
  case Nil
  show ?case by simp
next
  case (Cons p txs)
  have "m \<le> max \<bar>snd p\<bar> m" by simp
  also have "\<dots> \<le> fold (\<lambda>p m. max \<bar>snd p\<bar> m) txs (max \<bar>snd p\<bar> m)" by (rule Cons.IH)
  finally show ?case by simp
qed

lemma fold_max_mem:
  "p \<in> set txs \<Longrightarrow> \<bar>snd p\<bar> \<le> fold (\<lambda>p m. max \<bar>snd p\<bar> m) txs (m::int)"
proof (induction txs arbitrary: m)
  case Nil
  then show ?case by simp
next
  case (Cons q txs)
  show ?case
  proof (cases "p = q")
    case True
    have "\<bar>snd q\<bar> \<le> max \<bar>snd q\<bar> m" by simp
    also have "\<dots> \<le> fold (\<lambda>p m. max \<bar>snd p\<bar> m) txs (max \<bar>snd q\<bar> m)" by (rule fold_max_ge)
    finally show ?thesis using True by simp
  next
    case False
    with Cons.prems have "p \<in> set txs" by simp
    from Cons.IH [OF this] show ?thesis by simp
  qed
qed

lemma lookup_from_offset:
  "fst (lookup_from off st txs t) = off \<or> fst (lookup_from off st txs t) \<in> snd ` set txs"
proof (induction txs arbitrary: off st)
  case Nil
  show ?case by simp
next
  case (Cons p txs)
  obtain w off1 where p: "p = (w, off1)" by (cases p)
  show ?case
    using Cons.IH [of off1 "Some w"] p by auto
qed

lemma max_offset_nonneg: "0 \<le> max_offset l"
proof -
  have "0 \<le> \<bar>firstOffset l\<bar>" by simp
  also have "\<dots> \<le> max_offset l" unfolding max_offset_def by (rule fold_max_ge)
  finally show ?thesis .
qed

lemma lookup_offset_bound: "\<bar>fst (lookup l t)\<bar> \<le> max_offset l"
proof -
  from lookup_from_offset [of "firstOffset l" None "tx l" t]
  consider "fst (lookup l t) = firstOffset l" | "fst (lookup l t) \<in> snd ` set (tx l)"
    unfolding lookup_def by blast
  then show ?thesis
  proof cases
    case 1
    then show ?thesis unfolding max_offset_def using fold_max_ge [of "\<bar>firstOffset l\<bar>" "tx l"] by simp
  next
    case 2
    then obtain p where "p \<in> set (tx l)" "fst (lookup l t) = snd p" by auto
    then show ?thesis unfolding max_offset_def using fold_max_mem [of p "tx l"] by simp
  qed
qed

lemma calm_lookup:
  assumes so: "sorted (map fst (tx l))" and c: "calm l N"
    and t: "N * 86400 - max_offset l \<le> t" "t < (N + 1) * 86400 + max_offset l"
  shows "lookup l t = lookup l (N * 86400)"
proof -
  obtain off s e where lk: "lookup l (N * 86400) = (off, s, e)"
    by (cases "lookup l (N * 86400)")
  have "within s e t"
    using c t lk
    by (auto simp: calm_def within_def before_start_def reached_end_def split: option.splits)
  from lookup_stable [OF so lk this] lk show ?thesis by simp
qed

lemma calm_offset:
  assumes "sorted (map fst (tx l))" "calm l N"
    and "N * 86400 - max_offset l \<le> t" "t < (N + 1) * 86400 + max_offset l"
  shows "fst (lookup l t) = day_offset l N"
  using calm_lookup [OF assms] by (simp add: day_offset_def)

lemma day_offset_bound: "\<bar>day_offset l N\<bar> \<le> max_offset l"
  unfolding day_offset_def by (rule lookup_offset_bound)

lemma time_Date_calm:
  assumes so: "sorted (map fst (tx l))" and c: "calm l N"
    and u: "0 \<le> hour * 3600 + minute * 60 + sec" "hour * 3600 + minute * 60 + sec < 86400"
  shows "time_Date N hour minute sec nsec l =
           \<lparr>unixNano = (N * 86400 + hour * 3600 + minute * 60 + sec - day_offset l N) * 1000000000
                          + nsec, tloc = l\<rparr>"
proof -
  let ?u = "N * 86400 + hour * 3600 + minute * 60 + sec"
  let ?off = "day_offset l N"
  note b = day_offset_bound [of l N] max_offset_nonneg [of l]
  have r1: "N * 86400 - max_offset l \<le> ?u" "?u < (N + 1) * 86400 + max_offset l"
    unfolding next_day using u b by linarith+
  have r2: "N * 86400 - max_offset l \<le> ?u - ?off" "?u - ?off < (N + 1) * 86400 + max_offset l"
    unfolding next_day using u b by linarith+
  obtain s e where lk: "lookup l (N * 86400) = (?off, s, e)"
    by (cases "lookup l (N * 86400)") (simp add: day_offset_def)
  have l1: "lookup l ?u = (?off, s, e)"
    using calm_lookup [OF so c r1] lk by simp
  have l2: "fst (lookup l (?u - ?off)) = ?off"
    by (rule calm_offset [OF so c r2])
  show ?thesis
    using l1 l2 by (simp add: time_Date_def Let_def)
qed

lemma abs_sec_calm:
  assumes so: "sorted (map fst (tx l))" and c: "calm l N"
    and t: "N * 86400 \<le> unixSec t + day_offset l N" "unixSec t + day_offset l N < (N + 1) * 86400"
  shows "abs_sec (In t l) = unixSec t + day_offset l N"
proof -
  note b = day_offset_bound [of l N]
  have r: "N * 86400 - max_offset l \<le> unixSec t" "unixSec t < (N + 1) * 86400 + max_offset l"
    using t b unfolding next_day by linarith+
  have "fst (lookup l (unixSec t)) = day_offset l N"
    by (rule calm_offset [OF so c r])
  then show ?thesis by (simp add: abs_sec_def In_def unixSec_def)
qed

subsection \<open>Calm days\<close>



lemma div_day_eq: "N * 86400 \<le> a \<Longrightarrow> a < N * 86400 + 86400 \<Longrightarrow> (a::int) div 86400 = N"
proof -
  assume a: "N * 86400 \<le> a" "a < N * 86400 + 86400"
  show ?thesis
    by (rule int_div_pos_eq [of a 86400 N "a - N * 86400"]) (use a in simp_all)
qed


lemma unixSec_In [simp]: "unixSec (In t l) = unixSec t"
  by (simp add: unixSec_def In_def)

lemma unixNano_In [simp]: "unixNano (In t l) = unixNano t"
  by (simp add: In_def)

lemma tloc_In [simp]: "tloc (In t l) = l"
  by (simp add: In_def)

lemma Nanosecond_In [simp]: "Nanosecond (In t l) = Nanosecond t"
  by (simp add: Nanosecond_def)

lemma sec_of_nanos:
  "0 \<le> n \<Longrightarrow> n < 1000000000 \<Longrightarrow> (a * 1000000000 + n) div 1000000000 = (a::int)"
  by (rule int_div_pos_eq [of _ _ _ n]) simp_all



lemma civil_day_calm:
  assumes so: "sorted (map fst (tx l))" and c: "calm l N"
    and t: "N * 86400 \<le> unixSec t + day_offset l N" "unixSec t + day_offset l N < (N + 1) * 86400"
  shows "civil_day (In t l) = N"
  unfolding civil_day_def abs_sec_calm [OF so c t]
  by (rule div_day_eq) (use t in \<open>simp_all only: next_day\<close>)



















subsection \<open>Days on which the offset changes\<close>



lemma civil_day_time_Date_calm:
  assumes so: "sorted (map fst (tx l))" and c: "calm l N"
    and u: "0 \<le> hour * 3600 + minute * 60 + sec" "hour * 3600 + minute * 60 + sec < 86400"
    and ns: "0 \<le> nsec" "nsec < 1000000000"
  shows "civil_day (time_Date N hour minute sec nsec l) = N"
proof -
  let ?x = "\<lparr>unixNano = (N * 86400 + hour * 3600 + minute * 60 + sec - day_offset l N)
                          * 1000000000 + nsec, tloc = l\<rparr>"
  have d: "time_Date N hour minute sec nsec l = ?x"
    by (rule time_Date_calm [OF so c u])
  have us: "unixSec ?x = N * 86400 + hour * 3600 + minute * 60 + sec - day_offset l N"
    using sec_of_nanos [OF ns] by (simp add: unixSec_def)
  have b: "N * 86400 \<le> unixSec ?x + day_offset l N"
    "unixSec ?x + day_offset l N < (N + 1) * 86400"
    unfolding us next_day using u by linarith+
  have e: "In ?x l = ?x" by (simp add: In_def)
  have "civil_day (In ?x l) = N"
    by (rule civil_day_calm [OF so c b])
  then show ?thesis unfolding e d .
qed


subsection \<open>The tables of America/Los\_Angeles and of UTC are regular\<close>








theorem regular_UTC: "regular UTC"
  unfolding regular_def
proof (intro conjI allI impI)
  show "sorted (map fst (tx UTC))" by (simp add: UTC_def)
next
  fix N show "calm UTC N" by (simp add: calm_def lookup_def UTC_def)
next
  fix N hour minute sec nsec :: int
  assume c: "0 \<le> hour * 3600 + minute * 60 + sec" "hour * 3600 + minute * 60 + sec < 86400"
    and ns: "0 \<le> nsec" "nsec < 1000000000"
  have so: "sorted (map fst (tx UTC))" by (simp add: UTC_def)
  have "calm UTC N" by (simp add: calm_def lookup_def UTC_def)
  with so show "civil_day (time_Date N hour minute sec nsec UTC) = N"
    using c ns by (rule civil_day_time_Date_calm)
qed

subsection \<open>Evaluation at concrete instants\<close>

lemma target_tzdb: "target_location tzdb = los_angeles"
  by (simp add: target_location_def LoadLocation_def tzdb_def)

lemma slot_candidates_head:
  assumes "unixNano c + 1800000000000 \<le> unixNano e"
  shows "slot_candidates e c =
           formatSlot c (Add c SlotDuration) # slot_candidates e (Add c SlotDuration)"
  using assms
  by (subst slot_candidates.simps)
     (auto simp: Before_def Equal_def Add_def SlotDuration_def time_Minute_def time_Second_def)


lemma week_candidates_Cons:
  "week_candidates db ref =
     day_candidates (target_location db) (Add ref (2 * time_Hour)) (In ref (target_location db)) 0 @
     concat (map (day_candidates (target_location db) (Add ref (2 * time_Hour))
                    (In ref (target_location db))) [1 ..< MaxDays])"
  by (simp add: week_candidates_def Let_def MaxDays_def upt_conv_Cons)



text \<open>The display strings of two slots.\<close>

lemma formatSlot_examples:
  "formatSlot \<lparr>unixNano = 1709938800000000000, tloc = los_angeles\<rparr>
              \<lparr>unixNano = 1709940600000000000, tloc = los_angeles\<rparr> =
     \<lparr>Start = \<lparr>unixNano = 1709938800000000000, tloc = los_angeles\<rparr>,
      End = \<lparr>unixNano = 1709940600000000000, tloc = los_angeles\<rparr>,
      Date = ''Friday, March 8, 2024'', Time = ''3:00 PM''\<rparr>"
  "formatSlot \<lparr>unixNano = 1710172800000000000, tloc = los_angeles\<rparr>
              \<lparr>unixNano = 1710174600000000000, tloc = los_angeles\<rparr> =
     \<lparr>Start = \<lparr>unixNano = 1710172800000000000, tloc = los_angeles\<rparr>,
      End = \<lparr>unixNano = 1710174600000000000, tloc = los_angeles\<rparr>,
      Date = ''Monday, March 11, 2024'', Time = ''9:00 AM''\<rparr>"
  by code_simp+

subsection \<open>The two-hour buffer\<close>

text \<open>
  Claim C1 (no returned slot starts before the reference instant plus two hours) does not
  hold of the code. After raising the start to the buffer and rounding the minutes up, the
  code truncates to the minute; when the minute of the buffer is already 0 or 30 nothing is
  added and the truncation moves the start back before the buffer. For the reference
  Monday 2024-01-08 08:00:30 (Pacific time) and no busy interval the first slot starts at
  10:00:00, thirty seconds before the buffer 10:00:30.
\<close>

theorem buffer_violated_by_truncation:
  "map (\<lambda>x. unixNano (Start x)) (take 1 (fst (GenerateAvailableSlots tzdb [] monday_080030)))
     = [1704736800000000000] \<and>
   unixNano (Add monday_080030 (2 * time_Hour)) = 1704736830000000000"
proof -
  let ?minS = "Add monday_080030 (2 * time_Hour)"
  let ?startS = "In monday_080030 los_angeles"
  let ?c = "\<lparr>unixNano = 1704736800000000000, tloc = los_angeles\<rparr>"
  have ds: "day_start los_angeles ?minS ?startS 0 = Some ?c"
    by code_simp
  have de: "day_end los_angeles ?startS 0 = \<lparr>unixNano = 1704762000000000000, tloc = los_angeles\<rparr>"
    by code_simp
  have wd: "is_workday ?startS 0"
    by code_simp
  have "day_candidates los_angeles ?minS ?startS 0 =
          slot_candidates \<lparr>unixNano = 1704762000000000000, tloc = los_angeles\<rparr> ?c"
    by (simp add: day_candidates_def wd ds de)
  also have "\<dots> = formatSlot ?c (Add ?c SlotDuration) #
      slot_candidates \<lparr>unixNano = 1704762000000000000, tloc = los_angeles\<rparr> (Add ?c SlotDuration)"
    by (rule slot_candidates_head) simp
  finally have "take 1 (week_candidates tzdb monday_080030) = [formatSlot ?c (Add ?c SlotDuration)]"
    by (simp add: week_candidates_Cons target_tzdb)
  moreover have "unixNano ?minS = 1704736830000000000"
    by (simp add: monday_080030_def Add_def time_Hour_def time_Minute_def time_Second_def)
  ultimately show ?thesis
    by (simp add: GenerateAvailableSlots_eq slot_busy_Nil formatSlot_def)
qed

subsection \<open>Friday afternoon\<close>




subsection \<open>Days examined\<close>




subsection \<open>Weekends and the Friday closing time\<close>




section \<open>Properties of the agent lookup\<close>

text \<open>
  Claim C7. MapAgent trims and upper-cases each label and returns the record of the first
  label, in the order of the input, whose normalised form is a key of the zone table, with
  the original label as its zone group; it returns nothing when no label matches. For the
  groups ops, PD2, pd1 it returns the record of PD2.
\<close>

theorem MapAgent_first_match:
  "MapAgent grps =
     (case List.find (\<lambda>g. ToUpper (TrimSpace (group_Name g)) \<in> dom PDAgentMap) grps of
        None \<Rightarrow> None
      | Some g \<Rightarrow> map_option (\<lambda>agent. agent\<lparr>ZoneGroup := group_Name g\<rparr>)
                   (PDAgentMap (ToUpper (TrimSpace (group_Name g))))) \<and>
   MapAgent [\<lparr>group_ID = ''1'', group_Name = ''ops''\<rparr>, \<lparr>group_ID = ''2'', group_Name = ''PD2''\<rparr>,
             \<lparr>group_ID = ''3'', group_Name = ''pd1''\<rparr>] =
     Some \<lparr>ID = ''dcb80b8a-66bd-11ee-b6c3-02094d1ce055'', Name = ''Elizabeth'',
           Email = ''elizabeth@ltrealestateco.com'', Zone = ''PD2'', ZoneGroup = ''PD2''\<rparr> \<and>
   MapAgent [\<lparr>group_ID = ''7'', group_Name = ''  pd1 ''\<rparr>] =
     Some \<lparr>ID = ''59a26c67-5791-11f0-b6c3-02094d1ce055'', Name = ''Gracie'',
           Email = ''gracie@ltrealestateco.com'', Zone = ''PD1'', ZoneGroup = ''  pd1 ''\<rparr> \<and>
   MapAgent [\<lparr>group_ID = ''8'',
              group_Name = [CHR 0xC2, CHR 0xA0] @ ''Pd4'' @ [CHR 0xE2, CHR 0x80, CHR 0x89, CHR 0x0A]\<rparr>] =
     Some \<lparr>ID = ''4b8f5454-ef30-11ef-b6c3-02094d1ce055'', Name = ''Brandi'',
           Email = ''brandi@ltrealestateco.com'', Zone = ''PD4'',
           ZoneGroup = [CHR 0xC2, CHR 0xA0] @ ''Pd4'' @ [CHR 0xE2, CHR 0x80, CHR 0x89, CHR 0x0A]\<rparr> \<and>
   MapAgent [\<lparr>group_ID = ''9'',
              group_Name = [CHR 0xE3, CHR 0x80, CHR 0x80, CHR 0x09] @ ''pD3'' @ [CHR 0xC2, CHR 0x85]\<rparr>] =
     Some \<lparr>ID = ''4d6b75fd-5791-11f0-b6c3-02094d1ce055'', Name = ''Alexandra'',
           Email = ''alexandra@ltrealestateco.com'', Zone = ''PD3'',
           ZoneGroup = [CHR 0xE3, CHR 0x80, CHR 0x80, CHR 0x09] @ ''pD3'' @ [CHR 0xC2, CHR 0x85]\<rparr> \<and>
   MapAgent [\<lparr>group_ID = ''1'', group_Name = ''ops''\<rparr>, \<lparr>group_ID = ''2'', group_Name = ''PD5''\<rparr>,
             \<lparr>group_ID = ''3'', group_Name = ''P D1''\<rparr>, \<lparr>group_ID = ''4'', group_Name = ''''\<rparr>] = None"
proof (intro conjI)
  show "MapAgent grps =
     (case List.find (\<lambda>g. ToUpper (TrimSpace (group_Name g)) \<in> dom PDAgentMap) grps of
        None \<Rightarrow> None
      | Some g \<Rightarrow> map_option (\<lambda>agent. agent\<lparr>ZoneGroup := group_Name g\<rparr>)
                   (PDAgentMap (ToUpper (TrimSpace (group_Name g)))))"
    by (induction grps) (auto simp: Let_def split: option.splits)
qed code_simp+

section \<open>Properties of the message\<close>

lemma times_loop_eq:
  "0 \<le> i \<Longrightarrow> i \<le> 6 \<Longrightarrow>
   times_loop ts i n msg =
     msg @ concat (map time_line (take (nat (6 - i)) ts)) @
     (if length ts > nat (6 - i) then more_times_line (n - 6) else '''')"
proof (induction ts arbitrary: i msg)
  case Nil
  then show ?case by simp
next
  case (Cons t ts)
  show ?case
  proof (cases "i = 6")
    case True
    then show ?thesis by (simp add: more_times_line_def)
  next
    case False
    with Cons.prems have i: "i < 6" by simp
    then have n: "nat (6 - i) = Suc (nat (6 - (i + 1)))" by simp
    have "times_loop (t # ts) i n msg = times_loop ts (i + 1) n (msg @ time_line t)"
      using i by (simp add: time_line_def)
    also have "\<dots> = (msg @ time_line t) @ concat (map time_line (take (nat (6 - (i + 1))) ts)) @
        (if length ts > nat (6 - (i + 1)) then more_times_line (n - 6) else '''')"
      by (rule Cons.IH) (use Cons.prems i in simp_all)
    finally show ?thesis
      unfolding n by simp
  qed
qed

lemma dates_loop_eq:
  "0 \<le> count \<Longrightarrow> count \<le> 5 \<Longrightarrow>
   dates_loop m dates count msg =
     msg @ concat (map (\<lambda>d. render_date (d, times_in m d)) (take (nat (5 - count)) dates))"
proof (induction dates arbitrary: count msg)
  case Nil
  then show ?case by simp
next
  case (Cons d dates)
  show ?case
  proof (cases "count = 5")
    case True
    then show ?thesis by simp
  next
    case False
    with Cons.prems have c: "count < 5" by simp
    then have n: "nat (5 - count) = Suc (nat (5 - (count + 1)))" by simp
    have "dates_loop m (d # dates) count msg =
            dates_loop m dates (count + 1) (msg @ render_date (d, times_in m d))"
      using c by (simp add: Let_def render_date_def times_in_def times_loop_eq)
    also have "\<dots> = (msg @ render_date (d, times_in m d)) @
        concat (map (\<lambda>d. render_date (d, times_in m d)) (take (nat (5 - (count + 1))) dates))"
      by (rule Cons.IH) (use Cons.prems c in simp_all)
    finally show ?thesis
      unfolding n by simp
  qed
qed

lemma set_first_seen [simp]: "set (first_seen xs) = set xs"
proof (induction xs rule: first_seen.induct)
  case 1
  show ?case by simp
next
  case (2 x xs)
  then show ?case by auto
qed

lemma group_loop_eq:
  "dom m = set od \<Longrightarrow>
   group_loop slots (m, od) =
     ((\<lambda>d. if d \<in> set od \<or> d \<in> Date ` set slots
            then Some (times_in m d @ times_of d slots) else None),
      od @ first_seen (filter (\<lambda>d. d \<notin> set od) (map Date slots)))"
proof (induction slots arbitrary: m od)
  case Nil
  have "d \<in> set od \<longleftrightarrow> m d \<noteq> None" for d
    using Nil [symmetric] by (simp add: domIff)
  then have "m d = (if d \<in> set od then Some (times_in m d) else None)" for d
    by (auto simp: times_in_def split: option.splits)
  then show ?case by (auto simp: times_of_def)
next
  case (Cons s slots)
  let ?d = "Date s"
  let ?m1 = "m(?d \<mapsto> times_in m ?d @ [Time s])"
  let ?od1 = "if m ?d = None then od @ [?d] else od"
  have dom1: "dom ?m1 = set ?od1"
    using Cons.prems by (auto simp: dom_def)
  have step: "group_loop (s # slots) (m, od) = group_loop slots (?m1, ?od1)"
    by (simp add: Let_def times_in_def)
  have in_od: "?d \<in> set od \<longleftrightarrow> m ?d \<noteq> None"
    using Cons.prems [symmetric] by (simp add: domIff)
  have maps: "(\<lambda>d. if d \<in> set ?od1 \<or> d \<in> Date ` set slots
                    then Some (times_in ?m1 d @ times_of d slots) else None) =
              (\<lambda>d. if d \<in> set od \<or> d \<in> Date ` set (s # slots)
                    then Some (times_in m d @ times_of d (s # slots)) else None)"
    by (rule ext) (auto simp: times_in_def times_of_def in_od)
  have dates: "?od1 @ first_seen (filter (\<lambda>d. d \<notin> set ?od1) (map Date slots)) =
               od @ first_seen (filter (\<lambda>d. d \<notin> set od) (map Date (s # slots)))"
  proof (cases "m ?d = None")
    case True
    then have "?d \<notin> set od" using in_od by simp
    moreover have "filter (\<lambda>d. d \<noteq> ?d \<and> d \<notin> set od) (map Date slots) =
                   filter (\<lambda>y. y \<noteq> ?d) (filter (\<lambda>d. d \<notin> set od) (map Date slots))"
      by (simp add: conj_commute)
    ultimately show ?thesis using True by (simp add: conj_commute)
  next
    case False
    then have "?d \<in> set od" using in_od by simp
    then show ?thesis using False by auto
  qed
  show ?case
    unfolding step Cons.IH [OF dom1] maps dates ..
qed

lemma group_loop_empty:
  "group_loop slots (Map.empty, []) =
     ((\<lambda>d. if d \<in> Date ` set slots then Some (times_of d slots) else None),
      first_seen (map Date slots))"
  using group_loop_eq [of Map.empty "[]" slots] by (simp add: times_in_def cong: if_cong)

text \<open>
  Claim C9. The message that formatMessage builds is the message described by the
  specification: slots grouped by display date in the order in which the dates are first
  seen, at most five dates, at most six times for a date with a line counting the remaining
  times exactly when there are more than six, a line counting the remaining days exactly
  when there are more than five dates, the fully-booked text with the number of days
  examined when there is no slot; and the message always ends with the contact line, which
  names the agent and the email address.
\<close>

theorem formatMessage_refines_spec:
  "formatMessage prop agent avail totalGenerated = formatMessage_spec prop agent avail \<and>
   suffix (contact_line agent (Slots avail = [])) (formatMessage prop agent avail totalGenerated) \<and>
   formatMessage example_property example_agent
      \<lparr>TotalSlotsAvailable = 0, DaysChecked = 5, Slots = []\<rparr> 75 =
    [CHR 0xF0, CHR 0x9F, CHR 0x8F, CHR 0xA0] @ '' PROPERTY: Maple Court\<newline>'' @
    [CHR 0xF0, CHR 0x9F, CHR 0x93, CHR 0x8D] @ '' 12 Maple St, Fresno, CA\<newline>\<newline>'' @
    [CHR 0xF0, CHR 0x9F, CHR 0x91, CHR 0xA4] @ '' LEASING AGENT: Elizabeth\<newline>'' @
    [CHR 0xF0, CHR 0x9F, CHR 0x93, CHR 0xA7] @
    '' Email: elizabeth@ltrealestateco.com\<newline>\<newline>'' @
    [CHR 0xF0, CHR 0x9F, CHR 0x93, CHR 0x85] @ '' SHOWING AVAILABILITY:\<newline>'' @
    ''No available time slots found in the next 5 days.\<newline>'' @
    ''Elizabeth's calendar is fully booked.\<newline>\<newline>'' @
    [CHR 0xF0, CHR 0x9F, CHR 0x93, CHR 0x9E] @
    '' Please contact Elizabeth directly at elizabeth@ltrealestateco.com to schedule.'' \<and>
   formatMessage example_property example_agent
      \<lparr>TotalSlotsAvailable = 21, DaysChecked = 5, Slots = example_slots\<rparr> 75 =
    [CHR 0xF0, CHR 0x9F, CHR 0x8F, CHR 0xA0] @ '' PROPERTY: Maple Court\<newline>'' @
    [CHR 0xF0, CHR 0x9F, CHR 0x93, CHR 0x8D] @ '' 12 Maple St, Fresno, CA\<newline>\<newline>'' @
    [CHR 0xF0, CHR 0x9F, CHR 0x91, CHR 0xA4] @ '' LEASING AGENT: Elizabeth\<newline>'' @
    [CHR 0xF0, CHR 0x9F, CHR 0x93, CHR 0xA7] @
    '' Email: elizabeth@ltrealestateco.com\<newline>\<newline>'' @
    [CHR 0xF0, CHR 0x9F, CHR 0x93, CHR 0x85] @ '' AVAILABLE SHOWING TIMES:\<newline>\<newline>'' @
    ''Monday, January 8, 2024:\<newline>'' @
    ''  '' @ [CHR 0xE2, CHR 0x80, CHR 0xA2] @ '' 9:00 AM\<newline>'' @
    ''  '' @ [CHR 0xE2, CHR 0x80, CHR 0xA2] @ '' 9:30 AM\<newline>'' @
    ''  '' @ [CHR 0xE2, CHR 0x80, CHR 0xA2] @ '' 10:00 AM\<newline>'' @
    ''  '' @ [CHR 0xE2, CHR 0x80, CHR 0xA2] @ '' 10:30 AM\<newline>'' @
    ''  '' @ [CHR 0xE2, CHR 0x80, CHR 0xA2] @ '' 11:00 AM\<newline>'' @
    ''  '' @ [CHR 0xE2, CHR 0x80, CHR 0xA2] @ '' 11:30 AM\<newline>'' @
    ''  '' @ [CHR 0xE2, CHR 0x80, CHR 0xA2] @ '' ...10 more times available\<newline>'' @
    ''\<newline>'' @
    ''Tuesday, January 9, 2024:\<newline>'' @
    ''  '' @ [CHR 0xE2, CHR 0x80, CHR 0xA2] @ '' 9:00 AM\<newline>\<newline>'' @
    ''Wednesday, January 10, 2024:\<newline>'' @
    ''  '' @ [CHR 0xE2, CHR 0x80, CHR 0xA2] @ '' 9:00 AM\<newline>\<newline>'' @
    ''Thursday, January 11, 2024:\<newline>'' @
    ''  '' @ [CHR 0xE2, CHR 0x80, CHR 0xA2] @ '' 9:00 AM\<newline>\<newline>'' @
    ''Friday, January 12, 2024:\<newline>'' @
    ''  '' @ [CHR 0xE2, CHR 0x80, CHR 0xA2] @ '' 9:00 AM\<newline>\<newline>'' @
    ''...and 1 more days with availability\<newline>'' @
    ''\<newline>'' @ [CHR 0xF0, CHR 0x9F, CHR 0x93, CHR 0x9E] @
    '' Contact Elizabeth at elizabeth@ltrealestateco.com to schedule your showing.''"
proof -
  let ?slots = "Slots avail"
  let ?m = "\<lambda>d. if d \<in> Date ` set ?slots then Some (times_of d ?slots) else None"
  have "map (\<lambda>d. render_date (d, times_in ?m d)) (first_seen (map Date ?slots)) =
        map (\<lambda>d. render_date (d, times_of d ?slots)) (first_seen (map Date ?slots))"
  proof (rule map_cong [OF refl])
    fix d assume "d \<in> set (first_seen (map Date ?slots))"
    then have "d \<in> Date ` set ?slots" by simp
    then show "render_date (d, times_in ?m d) = render_date (d, times_of d ?slots)"
      by (simp add: times_in_def)
  qed
  then have groups: "map (\<lambda>d. render_date (d, times_in ?m d)) (first_seen (map Date ?slots)) =
                     map render_date (slots_by_date ?slots)"
    by (simp add: slots_by_date_def times_of_def o_def)
  have body: "dates_loop ?m (first_seen (map Date ?slots)) 0 msg =
                msg @ concat (map render_date (take 5 (slots_by_date ?slots)))" for msg
  proof -
    have "dates_loop ?m (first_seen (map Date ?slots)) 0 msg =
            msg @ concat (take 5 (map (\<lambda>d. render_date (d, times_in ?m d))
                                    (first_seen (map Date ?slots))))"
      using dates_loop_eq [of 0 ?m "first_seen (map Date ?slots)" msg]
      by (simp only: take_map) simp
    then show ?thesis
      by (simp only: groups take_map)
  qed
  have len: "length (slots_by_date ?slots) = length (first_seen (map Date ?slots))"
    by (simp add: slots_by_date_def)
  have eq: "formatMessage prop agent avail totalGenerated = formatMessage_spec prop agent avail"
  proof (cases "?slots = []")
    case True
    then show ?thesis
      by (simp add: formatMessage_def formatMessage_spec_def message_header_def
            fully_booked_def contact_line_def Let_def)
  next
    case False
    then show ?thesis
      by (simp add: formatMessage_def formatMessage_spec_def message_header_def
            contact_line_def Let_def group_loop_empty body len more_days_line_def)
  qed
  have "suffix (contact_line agent (?slots = [])) (formatMessage_spec prop agent avail)"
    unfolding formatMessage_spec_def suffix_def
    by (cases "?slots = []") (auto simp: append_eq_append_conv2 intro: exI)
  moreover have "formatMessage example_property example_agent
      \<lparr>TotalSlotsAvailable = 0, DaysChecked = 5, Slots = []\<rparr> 75 =
    [CHR 0xF0, CHR 0x9F, CHR 0x8F, CHR 0xA0] @ '' PROPERTY: Maple Court\<newline>'' @
    [CHR 0xF0, CHR 0x9F, CHR 0x93, CHR 0x8D] @ '' 12 Maple St, Fresno, CA\<newline>\<newline>'' @
    [CHR 0xF0, CHR 0x9F, CHR 0x91, CHR 0xA4] @ '' LEASING AGENT: Elizabeth\<newline>'' @
    [CHR 0xF0, CHR 0x9F, CHR 0x93, CHR 0xA7] @
    '' Email: elizabeth@ltrealestateco.com\<newline>\<newline>'' @
    [CHR 0xF0, CHR 0x9F, CHR 0x93, CHR 0x85] @ '' SHOWING AVAILABILITY:\<newline>'' @
    ''No available time slots found in the next 5 days.\<newline>'' @
    ''Elizabeth's calendar is fully booked.\<newline>\<newline>'' @
    [CHR 0xF0, CHR 0x9F, CHR 0x93, CHR 0x9E] @
    '' Please contact Elizabeth directly at elizabeth@ltrealestateco.com to schedule.''"
    by code_simp
  moreover have "formatMessage example_property example_agent
      \<lparr>TotalSlotsAvailable = 21, DaysChecked = 5, Slots = example_slots\<rparr> 75 =
    [CHR 0xF0, CHR 0x9F, CHR 0x8F, CHR 0xA0] @ '' PROPERTY: Maple Court\<newline>'' @
    [CHR 0xF0, CHR 0x9F, CHR 0x93, CHR 0x8D] @ '' 12 Maple St, Fresno, CA\<newline>\<newline>'' @
    [CHR 0xF0, CHR 0x9F, CHR 0x91, CHR 0xA4] @ '' LEASING AGENT: Elizabeth\<newline>'' @
    [CHR 0xF0, CHR 0x9F, CHR 0x93, CHR 0xA7] @
    '' Email: elizabeth@ltrealestateco.com\<newline>\<newline>'' @
    [CHR 0xF0, CHR 0x9F, CHR 0x93, CHR 0x85] @ '' AVAILABLE SHOWING TIMES:\<newline>\<newline>'' @
    ''Monday, January 8, 2024:\<newline>'' @
    ''  '' @ [CHR 0xE2, CHR 0x80, CHR 0xA2] @ '' 9:00 AM\<newline>'' @
    ''  '' @ [CHR 0xE2, CHR 0x80, CHR 0xA2] @ '' 9:30 AM\<newline>'' @
    ''  '' @ [CHR 0xE2, CHR 0x80, CHR 0xA2] @ '' 10:00 AM\<newline>'' @
    ''  '' @ [CHR 0xE2, CHR 0x80, CHR 0xA2] @ '' 10:30 AM\<newline>'' @
    ''  '' @ [CHR 0xE2, CHR 0x80, CHR 0xA2] @ '' 11:00 AM\<newline>'' @
    ''  '' @ [CHR 0xE2, CHR 0x80, CHR 0xA2] @ '' 11:30 AM\<newline>'' @
    ''  '' @ [CHR 0xE2, CHR 0x80, CHR 0xA2] @ '' ...10 more times available\<newline>'' @
    ''\<newline>'' @
    ''Tuesday, January 9, 2024:\<newline>'' @
    ''  '' @ [CHR 0xE2, CHR 0x80, CHR 0xA2] @ '' 9:00 AM\<newline>\<newline>'' @
    ''Wednesday, January 10, 2024:\<newline>'' @
    ''  '' @ [CHR 0xE2, CHR 0x80, CHR 0xA2] @ '' 9:00 AM\<newline>\<newline>'' @
    ''Thursday, January 11, 2024:\<newline>'' @
    ''  '' @ [CHR 0xE2, CHR 0x80, CHR 0xA2] @ '' 9:00 AM\<newline>\<newline>'' @
    ''Friday, January 12, 2024:\<newline>'' @
    ''  '' @ [CHR 0xE2, CHR 0x80, CHR 0xA2] @ '' 9:00 AM\<newline>\<newline>'' @
    ''...and 1 more days with availability\<newline>'' @
    ''\<newline>'' @ [CHR 0xF0, CHR 0x9F, CHR 0x93, CHR 0x9E] @
    '' Contact Elizabeth at elizabeth@ltrealestateco.com to schedule your showing.''"
    by code_simp
  ultimately show ?thesis using eq by simp
qed


section \<open>Properties of the pipeline\<close>

text \<open>
  Claim C8. When property and agent have been resolved and the fetch of the calendar
  credential fails, the response has \<open>success = false\<close>, carries the property and the agent,
  has an empty availability, and its message contains the email address of the agent.
\<close>

theorem credential_failure_response:
  assumes "query \<noteq> ''''"
    and "extractedPropertyID \<noteq> '''' \<and> propID = extractedPropertyID \<or>
         extractedPropertyID = '''' \<and> FindPropertyID env query = Inr propID"
    and "GetProperty env propID = Inr prop"
    and "GetPropertyGroups env (af_PropertyGroupIds prop) = Inr grps"
    and "MapAgent grps = Some agent"
    and "GetAccessToken env (Email agent) = Inl err"
  shows "HandleRequest env query extractedPropertyID =
           successResponse
             \<lparr>Success = False, Property = mapPropertyInfo prop, Agent = agent,
              Availability = \<lparr>TotalSlotsAvailable = 0, DaysChecked = 0, Slots = []\<rparr>,
              Message = ''Agent calendar access unavailable.'',
              FormattedMsg = ''I'd love to schedule a viewing for '' @ af_Address1 prop @
                '', but I can't access '' @ Name agent @ [CHR 0x27] @
                ''s calendar right now. Please email them at '' @ Email agent @ ''.''\<rparr> \<and>
         sublist (Email agent)
           (''I'd love to schedule a viewing for '' @ af_Address1 prop @
            '', but I can't access '' @ Name agent @ [CHR 0x27] @
            ''s calendar right now. Please email them at '' @ Email agent @ ''.'')"
proof
  show "HandleRequest env query extractedPropertyID =
           successResponse
             \<lparr>Success = False, Property = mapPropertyInfo prop, Agent = agent,
              Availability = \<lparr>TotalSlotsAvailable = 0, DaysChecked = 0, Slots = []\<rparr>,
              Message = ''Agent calendar access unavailable.'',
              FormattedMsg = ''I'd love to schedule a viewing for '' @ af_Address1 prop @
                '', but I can't access '' @ Name agent @ [CHR 0x27] @
                ''s calendar right now. Please email them at '' @ Email agent @ ''.''\<rparr>"
    using assms by (auto simp: HandleRequest_def zero_Availability_def)
  show "sublist (Email agent)
           (''I'd love to schedule a viewing for '' @ af_Address1 prop @
            '', but I can't access '' @ Name agent @ [CHR 0x27] @
            ''s calendar right now. Please email them at '' @ Email agent @ ''.'')"
    unfolding sublist_def
    by (rule exI [of _ "''I'd love to schedule a viewing for '' @ af_Address1 prop @
               '', but I can't access '' @ Name agent @ [CHR 0x27] @
               ''s calendar right now. Please email them at ''"], rule exI [of _ "''.''"]) simp
qed


theorem credential_failure_response_witness:
  "HandleRequest example_env ''12 Maple St'' '''' =
     successResponse
       \<lparr>Success = False,
        Property = \<lparr>prop_ID = ''p-1'', prop_Name = ''Maple Court'', prop_Address = ''12 Maple St'',
                    prop_City = ''Fresno'', prop_State = ''CA''\<rparr>,
        Agent = \<lparr>ID = ''dcb80b8a-66bd-11ee-b6c3-02094d1ce055'', Name = ''Elizabeth'',
                 Email = ''elizabeth@ltrealestateco.com'', Zone = ''PD2'', ZoneGroup = ''pd2''\<rparr>,
        Availability = \<lparr>TotalSlotsAvailable = 0, DaysChecked = 0, Slots = []\<rparr>,
        Message = ''Agent calendar access unavailable.'',
        FormattedMsg = ''I'd love to schedule a viewing for 12 Maple St, but I can't access Elizabeth's calendar right now. Please email them at elizabeth@ltrealestateco.com.''\<rparr>"
proof -
  let ?pr = "\<lparr>af_ID = ''p-1'', af_Name = ''Maple Court'', af_Address1 = ''12 Maple St'',
                af_City = ''Fresno'', af_State = ''CA'', af_PropertyGroupIds = [''g1'']\<rparr>"
  let ?agent = "\<lparr>ID = ''dcb80b8a-66bd-11ee-b6c3-02094d1ce055'', Name = ''Elizabeth'',
                 Email = ''elizabeth@ltrealestateco.com'', Zone = ''PD2'', ZoneGroup = ''pd2''\<rparr>"
  have m: "MapAgent [\<lparr>group_ID = ''g1'', group_Name = ''pd2''\<rparr>] = Some ?agent"
    by code_simp
  have h: "''12 Maple St'' \<noteq> ''''"
    "('''' :: string) \<noteq> '''' \<and> ''p-1'' = '''' \<or>
       ('''' :: string) = '''' \<and> FindPropertyID example_env ''12 Maple St'' = Inr ''p-1''"
    "GetProperty example_env ''p-1'' = Inr ?pr"
    "GetPropertyGroups example_env (af_PropertyGroupIds ?pr) =
       Inr [\<lparr>group_ID = ''g1'', group_Name = ''pd2''\<rparr>]"
    "GetAccessToken example_env (Email ?agent) = Inl ''no token found for email''"
    by (simp_all add: example_env_def)
  from credential_failure_response [OF h(1-4) m h(5)] show ?thesis
    by (simp add: mapPropertyInfo_def)
qed

end
